theory Spec2Isabelle
  imports Complex_Main
begin

section \<open>Python values, exceptions and text formatting\<close>

text \<open>
  The driver \<^verbatim>\<open>MicrowaveWindfreak\<close> (file
  \<^verbatim>\<open>hardware/microwave/mw_source_windfreak.py\<close>) is Python, so the values that flow
  through it are dynamically typed. The fragment needed here: \<^verbatim>\<open>None\<close>, booleans,
  integers, floats, strings and tuples. A finite float is represented by the exact rational
  value of the double (infinities, NaN and the negative zero are outside the model); an
  integer is unbounded.
\<close>

datatype pyval =
    PNone
  | PBool bool
  | PInt int
  | PFloat rat
  | PStr string
  | PTuple "pyval list"

text \<open>The exceptions the driver can run into.\<close>

datatype error =
    TypeError
  | AttributeError
  | ValueError
  | IndexError
  | OverflowError
  | VisaIOError

text \<open>Truth value of an object in \<^verbatim>\<open>if x:\<close> and \<^verbatim>\<open>while not x:\<close>.\<close>

fun truthy :: "pyval \<Rightarrow> bool" where
  "truthy PNone = False"
| "truthy (PBool b) = b"
| "truthy (PInt n) = (n \<noteq> 0)"
| "truthy (PFloat q) = (q \<noteq> 0)"
| "truthy (PStr s) = (s \<noteq> [])"
| "truthy (PTuple vs) = (vs \<noteq> [])"

text \<open>
  Calling an object, \<^verbatim>\<open>v()\<close>. None of the values of the fragment is callable: Python
  raises \<^verbatim>\<open>TypeError: '...' object is not callable\<close>.
\<close>

fun py_call :: "pyval \<Rightarrow> error + pyval" where
  "py_call PNone = Inl TypeError"
| "py_call (PBool b) = Inl TypeError"
| "py_call (PInt n) = Inl TypeError"
| "py_call (PFloat q) = Inl TypeError"
| "py_call (PStr s) = Inl TypeError"
| "py_call (PTuple vs) = Inl TypeError"

text \<open>
  Tuple unpacking \<^verbatim>\<open>a, b = v\<close>: a tuple of length two is taken apart, a tuple of
  another length is a \<^verbatim>\<open>ValueError\<close>, a string of two characters unpacks into its
  characters, and the other values are not iterable.
\<close>

fun py_unpack2 :: "pyval \<Rightarrow> error + (pyval \<times> pyval)" where
  "py_unpack2 (PTuple [a, b]) = Inr (a, b)"
| "py_unpack2 (PTuple vs) = Inl ValueError"
| "py_unpack2 (PStr [a, b]) = Inr (PStr [a], PStr [b])"
| "py_unpack2 (PStr s) = Inl ValueError"
| "py_unpack2 v = Inl TypeError"

subsection \<open>Decimal text\<close>

definition digit_char :: "nat \<Rightarrow> char" where
  "digit_char d = ''0123456789'' ! d"

fun dec_digits :: "nat \<Rightarrow> string" where
  "dec_digits n = (if n < 10 then [digit_char n] else dec_digits (n div 10) @ [digit_char (n mod 10)])"

declare dec_digits.simps [simp del]

definition pad_left :: "nat \<Rightarrow> char \<Rightarrow> string \<Rightarrow> string" where
  "pad_left w c s = replicate (w - length s) c @ s"

text \<open>\<^verbatim>\<open>'{0}'.format(n)\<close> for an integer.\<close>

definition format_int :: "int \<Rightarrow> string" where
  "format_int n = (if n < 0 then ''-'' else []) @ dec_digits (nat \<bar>n\<bar>)"

text \<open>
  Rounding of the fraction \<open>a / b\<close> to the nearest integer, ties to the even one: the
  rounding Python applies to the exact value of a double when it prints a fixed number of
  decimals.
\<close>

definition round_half_even :: "nat \<Rightarrow> nat \<Rightarrow> nat" where
  "round_half_even a b =
     (if 2 * (a mod b) < b then a div b
      else if b < 2 * (a mod b) then a div b + 1
      else if even (a div b) then a div b else a div b + 1)"

text \<open>
  The text of a number with six decimals, given the number scaled by \<open>10 ^ 6\<close> and
  rounded.
\<close>

definition six_decimals :: "nat \<Rightarrow> string" where
  "six_decimals n =
     dec_digits (n div 1000000) @ ''.'' @ pad_left 6 (CHR ''0'') (dec_digits (n mod 1000000))"

definition sign_text :: "bool \<Rightarrow> string" where
  "sign_text neg = (if neg then ''-'' else [])"

text \<open>\<^verbatim>\<open>'{0:f}'.format(x)\<close>: six decimals.\<close>

definition format_f_frac :: "bool \<Rightarrow> nat \<Rightarrow> nat \<Rightarrow> string" where
  "format_f_frac neg a b = sign_text neg @ six_decimals (round_half_even (a * 1000000) b)"

definition format_f :: "rat \<Rightarrow> string" where
  "format_f x = format_f_frac (x < 0) (nat (fst (quotient_of \<bar>x\<bar>))) (nat (snd (quotient_of \<bar>x\<bar>)))"

text \<open>
  The decimal exponent of the positive fraction \<open>a / b\<close>: the \<open>e\<close> with
  \<open>10 ^ e \<le> a / b < 10 ^ (e + 1)\<close>.
\<close>

definition dec_exponent :: "nat \<Rightarrow> nat \<Rightarrow> int" where
  "dec_exponent a b =
     (if b \<le> a then int (length (dec_digits (a div b))) - 1
      else - int (length (dec_digits ((b + a - 1) div a - 1))))"

text \<open>
  \<^verbatim>\<open>'{0:e}'.format(x)\<close>: one leading digit, six decimals, an exponent of at least two
  digits. The mantissa is \<open>a / b\<close> scaled by \<open>10 ^ (6 - e)\<close> and rounded; when the
  rounding carries into an eighth digit the exponent grows by one.
\<close>

definition exponent_text :: "int \<Rightarrow> string" where
  "exponent_text e = ''e'' @ (if e < 0 then ''-'' else ''+'') @ pad_left 2 (CHR ''0'') (dec_digits (nat \<bar>e\<bar>))"

definition format_e_carry :: "bool \<Rightarrow> nat \<Rightarrow> int \<Rightarrow> string" where
  "format_e_carry neg m e =
     (if m = 10000000 then sign_text neg @ six_decimals 1000000 @ exponent_text (e + 1)
      else sign_text neg @ six_decimals m @ exponent_text e)"

definition format_e_scaled :: "bool \<Rightarrow> nat \<Rightarrow> nat \<Rightarrow> int \<Rightarrow> string" where
  "format_e_scaled neg a b e =
     (if e \<le> 6 then format_e_carry neg (round_half_even (a * 10 ^ nat (6 - e)) b) e
      else format_e_carry neg (round_half_even a (b * 10 ^ nat (e - 6))) e)"

definition format_e_frac :: "bool \<Rightarrow> nat \<Rightarrow> nat \<Rightarrow> string" where
  "format_e_frac neg a b = format_e_scaled neg a b (dec_exponent a b)"

definition format_e :: "rat \<Rightarrow> string" where
  "format_e x =
     (if x = 0 then ''0.000000e+00''
      else format_e_frac (x < 0) (nat (fst (quotient_of \<bar>x\<bar>))) (nat (snd (quotient_of \<bar>x\<bar>))))"

subsection \<open>Numeric arguments\<close>

text \<open>
  A frequency or a power handed to the driver is a Python number: an \<^verbatim>\<open>int\<close> or a
  \<^verbatim>\<open>float\<close>. The formats \<^verbatim>\<open>e\<close> and \<^verbatim>\<open>f\<close> print a float as it is and turn an
  integer into a float first. That conversion is exact below \<open>2 ^ 53\<close>; a larger integer
  is rounded to 53 significant bits, ties to even, and one that rounds to \<open>2 ^ 1024\<close> or
  more (from \<open>2 ^ 1024 - 2 ^ 970\<close> on) is refused with \<^verbatim>\<open>OverflowError\<close>.
\<close>

datatype pynum = NInt int | NFloat rat

fun num_val :: "pynum \<Rightarrow> rat" where
  "num_val (NInt n) = of_int n"
| "num_val (NFloat q) = q"

fun bitlen :: "nat \<Rightarrow> nat" where
  "bitlen n = (if n = 0 then 0 else Suc (bitlen (n div 2)))"

declare bitlen.simps [simp del]

definition round53 :: "nat \<Rightarrow> nat" where
  "round53 a = round_half_even a (2 ^ (bitlen a - 53)) * 2 ^ (bitlen a - 53)"

definition int_to_double :: "int \<Rightarrow> error + rat" where
  "int_to_double n =
     (if nat \<bar>n\<bar> < 2 ^ 53 then Inr (of_int n)
      else if 2 ^ 1024 - 2 ^ 970 \<le> nat \<bar>n\<bar> then Inl OverflowError
      else Inr (of_int (sgn n) * of_nat (round53 (nat \<bar>n\<bar>))))"

fun float_of_num :: "pynum \<Rightarrow> error + rat" where
  "float_of_num (NInt n) = int_to_double n"
| "float_of_num (NFloat q) = Inr q"

text \<open>\<^verbatim>\<open>'{0:e}'.format(x)\<close> and \<^verbatim>\<open>'{0:f}'.format(x)\<close> for a number.\<close>

definition format_e_num :: "pynum \<Rightarrow> error + string" where
  "format_e_num x = (case float_of_num x of Inl e \<Rightarrow> Inl e | Inr q \<Rightarrow> Inr (format_e q))"

definition format_f_num :: "pynum \<Rightarrow> error + string" where
  "format_f_num x = (case float_of_num x of Inl e \<Rightarrow> Inl e | Inr q \<Rightarrow> Inr (format_f q))"

subsection \<open>Reading an integer\<close>

text \<open>
  \<^verbatim>\<open>str.strip()\<close>: white space is removed at both ends. Among the 8-bit characters
  these are the codes 9 to 13, 28 to 32, 133 and 160.
\<close>

definition is_space :: "char \<Rightarrow> bool" where
  "is_space c =
     (let n = (of_char c :: nat)
      in (9 \<le> n \<and> n \<le> 13) \<or> (28 \<le> n \<and> n \<le> 32) \<or> n = 133 \<or> n = 160)"

definition strip :: "string \<Rightarrow> string" where
  "strip s = rev (dropWhile is_space (rev (dropWhile is_space s)))"

definition digit_val :: "char \<Rightarrow> nat option" where
  "digit_val c = (let n = (of_char c :: nat) in if 48 \<le> n \<and> n \<le> 57 then Some (n - 48) else None)"

text \<open>
  The digits of \<^verbatim>\<open>int(s)\<close>: at least one digit, single underscores allowed between
  digits. The flag says whether the character before was a digit.
\<close>

fun int_body :: "bool \<Rightarrow> nat \<Rightarrow> string \<Rightarrow> nat option" where
  "int_body prev acc [] = (if prev then Some acc else None)"
| "int_body prev acc (c # cs) =
     (if c = CHR ''_'' then (if prev \<and> cs \<noteq> [] then int_body False acc cs else None)
      else case digit_val c of
             None \<Rightarrow> None
           | Some d \<Rightarrow> int_body True (10 * acc + d) cs)"

definition py_int :: "string \<Rightarrow> error + int" where
  "py_int s =
     (case strip s of
        [] \<Rightarrow> Inl ValueError
      | c # cs \<Rightarrow>
          if c = CHR ''-'' then
            (case int_body False 0 cs of None \<Rightarrow> Inl ValueError | Some n \<Rightarrow> Inr (- int n))
          else if c = CHR ''+'' then
            (case int_body False 0 cs of None \<Rightarrow> Inl ValueError | Some n \<Rightarrow> Inr (int n))
          else
            (case int_body False 0 (c # cs) of None \<Rightarrow> Inl ValueError | Some n \<Rightarrow> Inr (int n)))"

section \<open>The transport and the adapter state\<close>

text \<open>
  Everything the driver does to the instrument goes through one VISA resource,
  \<^verbatim>\<open>self._usb_connection\<close>. The VISA library and the instrument are not part of the
  repository, so they are parameters of the model: what a write returns and what a query
  answers are functions of the traffic so far and of the command, and either may raise.
  Python's \<^verbatim>\<open>float(str)\<close>, the subtraction of two numbers and \<^verbatim>\<open>str\<close> of a number
  are parameters as well.
\<close>

datatype event =
    Write string
  | Query string
  | Sleep200

record env =
  visa_write :: "event list \<Rightarrow> string \<Rightarrow> error + pyval"
  visa_query :: "event list \<Rightarrow> string \<Rightarrow> error + string"
  float_of_str :: "string \<Rightarrow> error + rat"
  num_sub :: "pynum \<Rightarrow> pynum \<Rightarrow> pynum"
  str_of_num :: "pynum \<Rightarrow> string"

text \<open>
  The state of an activated module: the traffic on the transport (every write, query and
  200 ms sleep, in order) and the instance attribute \<^verbatim>\<open>internal_mode\<close>, which does not
  exist until a method assigns it (the class attribute is called \<^verbatim>\<open>_internal_mode\<close>).
\<close>

record adapter =
  io_log :: "event list"
  internal_mode :: "pyval option"

text \<open>A method body: it runs on a state and ends in a value or in an exception.\<close>

type_synonym 'a io = "adapter \<Rightarrow> (error + 'a) \<times> adapter"

definition ret :: "'a \<Rightarrow> 'a io" where
  "ret x s = (Inr x, s)"

definition raise :: "error \<Rightarrow> 'a io" where
  "raise e s = (Inl e, s)"

definition lift :: "error + 'a \<Rightarrow> 'a io" where
  "lift r s = (r, s)"

definition bnd :: "'a io \<Rightarrow> ('a \<Rightarrow> 'b io) \<Rightarrow> 'b io" where
  "bnd m f s = (case m s of (Inl e, s') \<Rightarrow> (Inl e, s') | (Inr x, s') \<Rightarrow> f x s')"

definition run_if :: "bool \<Rightarrow> 'a io \<Rightarrow> unit io" where
  "run_if c m = (if c then bnd m (\<lambda>_. ret ()) else ret ())"

text \<open>\<^verbatim>\<open>try: m  except: h\<close> with a bare \<^verbatim>\<open>except\<close>, which catches every exception.\<close>

definition try_except :: "'a io \<Rightarrow> 'a io \<Rightarrow> 'a io" where
  "try_except m h s = (case m s of (Inl e, s') \<Rightarrow> h s' | (Inr x, s') \<Rightarrow> (Inr x, s'))"

definition usb_write :: "env \<Rightarrow> string \<Rightarrow> pyval io" where
  "usb_write E cmd s = (visa_write E (io_log s) cmd, s\<lparr>io_log := io_log s @ [Write cmd]\<rparr>)"

definition usb_query :: "env \<Rightarrow> string \<Rightarrow> string io" where
  "usb_query E cmd s = (visa_query E (io_log s) cmd, s\<lparr>io_log := io_log s @ [Query cmd]\<rparr>)"

definition sleep200 :: "unit io" where
  "sleep200 s = (Inr (), s\<lparr>io_log := io_log s @ [Sleep200]\<rparr>)"

text \<open>
  Two attributes are read by the class and assigned by none of its methods:
  \<^verbatim>\<open>self._gpib_connection\<close>, and \<^verbatim>\<open>self.__usb_connection\<close>, which inside the class
  body is the mangled name \<^verbatim>\<open>_MicrowaveWindfreak__usb_connection\<close>. Reading either
  raises \<^verbatim>\<open>AttributeError\<close> before the write is attempted.
\<close>

definition gpib_write :: "env \<Rightarrow> string \<Rightarrow> pyval io" where
  "gpib_write E cmd = raise AttributeError"

definition mangled_usb_write :: "env \<Rightarrow> string \<Rightarrow> pyval io" where
  "mangled_usb_write E cmd = raise AttributeError"

definition set_mode :: "pyval \<Rightarrow> unit io" where
  "set_mode v s = (Inr (), s\<lparr>internal_mode := Some v\<rparr>)"

definition get_mode :: "pyval io" where
  "get_mode s = (case internal_mode s of None \<Rightarrow> (Inl AttributeError, s) | Some v \<Rightarrow> (Inr v, s))"

text \<open>\<^verbatim>\<open>float(v)\<close>.\<close>

fun py_float :: "env \<Rightarrow> pyval \<Rightarrow> error + rat" where
  "py_float E (PFloat q) = Inr q"
| "py_float E (PInt n) = Inr (of_int n)"
| "py_float E (PBool b) = Inr (if b then 1 else 0)"
| "py_float E (PStr s) = float_of_str E s"
| "py_float E PNone = Inl TypeError"
| "py_float E (PTuple vs) = Inl TypeError"

text \<open>An argument with a default value is either left out by the caller or given.\<close>

datatype 'a arg = Omitted | Given 'a

fun arg_or :: "'a \<Rightarrow> 'a arg \<Rightarrow> 'a" where
  "arg_or d Omitted = d"
| "arg_or d (Given x) = x"

section \<open>The operations of the driver\<close>

record limits =
  min_frequency :: rat
  max_frequency :: rat
  min_power :: rat
  max_power :: rat
  list_minstep :: rat
  list_maxstep :: rat
  list_maxentries :: nat
  sweep_minstep :: rat
  sweep_maxstep :: rat
  sweep_maxentries :: nat

definition get_limits :: limits where
  "get_limits =
     \<lparr>min_frequency = 54000000, max_frequency = 13600000000,
      min_power = - 50, max_power = 20,
      list_minstep = 1 / 10, list_maxstep = 13500000000, list_maxentries = 100,
      sweep_minstep = 1 / 10, sweep_maxstep = 13500000000, sweep_maxentries = 10001\<rparr>"

definition on :: "env \<Rightarrow> int io" where
  "on E = bnd (usb_write E ''E1r1'') (\<lambda>_. ret 0)"

definition off :: "env \<Rightarrow> int io" where
  "off E = bnd (usb_write E ''E0r0'') (\<lambda>_. ret 0)"

text \<open>
  \<^verbatim>\<open>get_status\<close> is declared under \<^verbatim>\<open>@property\<close>: reading the attribute
  \<^verbatim>\<open>self.get_status\<close> runs the body and yields the tuple. The mode in the tuple is the
  literal \<^verbatim>\<open>"sweep"\<close>.
\<close>

definition get_status :: "env \<Rightarrow> pyval io" where
  "get_status E =
     bnd (usb_query E ''r?'') (\<lambda>r.
     bnd (lift (py_int (strip r))) (\<lambda>n.
     ret (PTuple [PStr ''sweep'', PBool (n \<noteq> 0)])))"

text \<open>The expression \<^verbatim>\<open>self.get_status()\<close>: the property is read, then its value is called.\<close>

definition get_status_call :: "env \<Rightarrow> pyval io" where
  "get_status_call E = bnd (get_status E) (\<lambda>t. lift (py_call t))"

definition get_power :: "env \<Rightarrow> rat io" where
  "get_power E = bnd (usb_write E ''W?'') (\<lambda>v. lift (py_float E v))"

definition set_power :: "env \<Rightarrow> pynum option arg \<Rightarrow> int io" where
  "set_power E a =
     (case arg_or (Some (NFloat 0)) a of
        Some pw \<Rightarrow>
          bnd (lift (format_f_num pw)) (\<lambda>t.
          bnd (usb_write E (''W'' @ t)) (\<lambda>_.
          ret 0))
      | None \<Rightarrow> ret (- 1))"

definition get_frequency :: "env \<Rightarrow> rat io" where
  "get_frequency E = bnd (usb_query E ''f?'') (\<lambda>r. lift (float_of_str E r))"

definition set_frequency :: "env \<Rightarrow> pynum option arg \<Rightarrow> int io" where
  "set_frequency E a =
     (case arg_or None a of
        Some freq \<Rightarrow>
          bnd (lift (format_e_num freq)) (\<lambda>t.
          bnd (usb_write E (''f'' @ t @ '' MHz'')) (\<lambda>_.
          ret 0))
      | None \<Rightarrow> ret (- 1))"

subsection \<open>Continuous wave\<close>

text \<open>
  The first part of \<^verbatim>\<open>cw_on\<close>, up to the early \<^verbatim>\<open>return 0\<close>: the result is
  \<open>Some 0\<close> when the method returns there and \<open>None\<close> when it goes on.
\<close>

definition cw_on_check :: "env \<Rightarrow> int option io" where
  "cw_on_check E =
     bnd (get_status_call E) (\<lambda>is_running.
     bnd (set_mode (PStr ''cw'')) (\<lambda>_.
     if truthy is_running then
       bnd get_mode (\<lambda>m.
       if m = PStr ''cw'' then ret (Some 0)
       else bnd (off E) (\<lambda>_. ret None))
     else ret None))"

text \<open>The enable commands of \<^verbatim>\<open>cw_on\<close>; the value is the new \<^verbatim>\<open>is_running\<close>.\<close>

definition cw_on_enable :: "env \<Rightarrow> pyval io" where
  "cw_on_enable E =
     bnd get_mode (\<lambda>m.
     bnd (run_if (m \<noteq> PStr ''cw'') (usb_write E ''E1e1'')) (\<lambda>_.
     bnd (mangled_usb_write E ''E1e1'') (\<lambda>_.
     bnd (get_status_call E) (\<lambda>is_running.
     bnd (set_mode (PStr ''cw'')) (\<lambda>_.
     ret is_running)))))"

text \<open>One round of the waiting loop: sleep 200 ms, read the status, unpack it.\<close>

definition cw_on_poll_step :: "env \<Rightarrow> pyval io" where
  "cw_on_poll_step E =
     bnd sleep200 (\<lambda>_.
     bnd (get_status_call E) (\<lambda>v.
     bnd (lift (py_unpack2 v)) (\<lambda>p.
     ret (snd p))))"

text \<open>
  The loop \<^verbatim>\<open>while not is_running\<close> has no bound in the source, so it is a partial
  function: \<open>None\<close> is the run that never returns.
\<close>

partial_function (option) cw_on_poll :: "env \<Rightarrow> pyval \<Rightarrow> adapter \<Rightarrow> ((error + int) \<times> adapter) option" where
  "cw_on_poll E is_running s =
     (if truthy is_running then Some (Inr 0, s)
      else case cw_on_poll_step E s of
             (Inl e, s') \<Rightarrow> Some (Inl e, s')
           | (Inr r, s') \<Rightarrow> cw_on_poll E r s')"

definition cw_on :: "env \<Rightarrow> adapter \<Rightarrow> ((error + int) \<times> adapter) option" where
  "cw_on E s =
     (case cw_on_check E s of
        (Inl e, s') \<Rightarrow> Some (Inl e, s')
      | (Inr (Some code), s') \<Rightarrow> Some (Inr code, s')
      | (Inr None, s') \<Rightarrow>
          (case cw_on_enable E s' of
             (Inl e, s'') \<Rightarrow> Some (Inl e, s'')
           | (Inr is_running, s'') \<Rightarrow> cw_on_poll E is_running s''))"

definition set_cw :: "env \<Rightarrow> pynum option arg \<Rightarrow> pynum option arg \<Rightarrow> pyval io" where
  "set_cw E fa pa =
     bnd (get_status_call E) (\<lambda>is_running.
     bnd (set_mode (PStr ''cw'')) (\<lambda>_.
     bnd (run_if (truthy is_running) (off E)) (\<lambda>_.
     bnd get_mode (\<lambda>m.
     bnd (run_if (m \<noteq> PStr ''cw'') (usb_write E ''E1r1'')) (\<lambda>_.
     bnd (case arg_or None fa of
            Some frequency \<Rightarrow>
              bnd (lift (format_f_num frequency)) (\<lambda>t.
              bnd (usb_write E (''f'' @ t)) (\<lambda>_. ret ()))
          | None \<Rightarrow> ret ()) (\<lambda>_.
     bnd (case arg_or None pa of
            Some pw \<Rightarrow>
              bnd (lift (format_f_num pw)) (\<lambda>t.
              bnd (usb_write E (''W'' @ t)) (\<lambda>_. ret ()))
          | None \<Rightarrow> ret ()) (\<lambda>_.
     bnd (get_status_call E) (\<lambda>v.
     bnd (lift (py_unpack2 v)) (\<lambda>p.
     bnd (set_mode (fst p)) (\<lambda>_.
     bnd (get_frequency E) (\<lambda>actual_freq.
     bnd (get_power E) (\<lambda>actual_power.
     bnd get_mode (\<lambda>m'.
     ret (PTuple [PFloat actual_freq, PFloat actual_power, m']))))))))))))))"

subsection \<open>List and sweep\<close>

text \<open>\<^verbatim>\<open>len(freq)\<close>, \<^verbatim>\<open>freq[0]\<close> and \<^verbatim>\<open>freq[-1]\<close> on an argument that may be \<^verbatim>\<open>None\<close>.\<close>

fun py_len :: "'a list option \<Rightarrow> error + nat" where
  "py_len None = Inl TypeError"
| "py_len (Some xs) = Inr (length xs)"

fun py_first :: "'a list option \<Rightarrow> error + 'a" where
  "py_first None = Inl TypeError"
| "py_first (Some []) = Inl IndexError"
| "py_first (Some (x # xs)) = Inr x"

fun py_last :: "'a list option \<Rightarrow> error + 'a" where
  "py_last None = Inl TypeError"
| "py_last (Some []) = Inl IndexError"
| "py_last (Some (x # xs)) = Inr (last (x # xs))"

text \<open>\<^verbatim>\<open>'{0:f}'.format(power)\<close>: \<^verbatim>\<open>None\<close> does not take the format \<^verbatim>\<open>f\<close>.\<close>

fun format_f_opt :: "pynum option \<Rightarrow> error + string" where
  "format_f_opt None = Inl TypeError"
| "format_f_opt (Some x) = format_f_num x"

definition set_list :: "env \<Rightarrow> pynum list option arg \<Rightarrow> pynum option arg \<Rightarrow> int io" where
  "set_list E fa pa =
     bnd (lift (py_len (arg_or None fa))) (\<lambda>n.
     bnd (usb_write E ''X0'') (\<lambda>_.
     bnd (lift (py_first (arg_or None fa))) (\<lambda>lo.
     bnd (lift (format_e_num lo)) (\<lambda>t1.
     bnd (usb_write E (''l'' @ t1)) (\<lambda>_.
     bnd (lift (py_last (arg_or None fa))) (\<lambda>hi.
     bnd (lift (format_e_num hi)) (\<lambda>t2.
     bnd (usb_write E (''u'' @ t2)) (\<lambda>_.
     bnd (usb_write E (''s'' @ format_int (int n))) (\<lambda>_.
     bnd (usb_write E ''t10.00'') (\<lambda>_.
     bnd (lift (format_f_opt (arg_or None pa))) (\<lambda>p1.
     bnd (usb_write E (''['' @ p1)) (\<lambda>_.
     bnd (lift (format_f_opt (arg_or None pa))) (\<lambda>p2.
     bnd (usb_write E ('']'' @ p2)) (\<lambda>_.
     bnd (usb_write E ''^1'') (\<lambda>_.
     bnd (usb_write E ''g1'') (\<lambda>_.
     bnd (set_mode (PStr ''list'')) (\<lambda>_.
     ret 0)))))))))))))))))"

definition reset_listpos :: "env \<Rightarrow> int io" where
  "reset_listpos E = bnd (usb_write E ''g0'') (\<lambda>_. ret 0)"

definition reset_sweeppos :: "env \<Rightarrow> int io" where
  "reset_sweeppos E =
     bnd (set_mode (PStr ''sweep'')) (\<lambda>_.
     bnd (usb_write E ''g1'') (\<lambda>_.
     ret 0))"

definition set_sweep :: "env \<Rightarrow> pynum \<Rightarrow> pynum \<Rightarrow> pynum \<Rightarrow> pynum \<Rightarrow> pyval io" where
  "set_sweep E start stop step pw =
     bnd (gpib_write E ''X0'') (\<lambda>_.
     bnd (gpib_write E (''l'' @ str_of_num E (num_sub E start step))) (\<lambda>_.
     bnd (gpib_write E (''u'' @ str_of_num E stop)) (\<lambda>_.
     bnd (gpib_write E (''s'' @ str_of_num E step)) (\<lambda>_.
     bnd (gpib_write E ''x2'') (\<lambda>_.
     bnd (gpib_write E ''w1'') (\<lambda>_.
     bnd (set_mode (PStr ''sweep'')) (\<lambda>_.
     get_mode)))))))"

definition reset_sweep :: "env \<Rightarrow> int io" where
  "reset_sweep E =
     bnd (usb_write E ''g1'') (\<lambda>_.
     bnd (usb_write E ''g0'') (\<lambda>_.
     ret 0))"

definition sweep_on :: "env \<Rightarrow> int io" where
  "sweep_on E =
     bnd (usb_write E ''E1r1'') (\<lambda>_.
     bnd (usb_write E ''g1'') (\<lambda>_.
     bnd (set_mode (PStr ''sweep'')) (\<lambda>_.
     ret 1)))"

definition list_on :: "env \<Rightarrow> int io" where
  "list_on E =
     bnd (set_mode (PStr ''list'')) (\<lambda>_.
     bnd (usb_write E ''e1r1'') (\<lambda>_.
     bnd (usb_write E ''g1'') (\<lambda>_.
     ret 0)))"

subsection \<open>External trigger\<close>

text \<open>
  The argument of \<^verbatim>\<open>set_ext_trigger\<close>: one of the two edges of the enumeration
  \<^verbatim>\<open>TriggerEdge\<close> that the method compares with, or any other value. In the
  \<^verbatim>\<open>try\<close> block the value \<open>Some code\<close> is a \<^verbatim>\<open>return code\<close> from the handler and
  \<open>None\<close> falls through to the final \<^verbatim>\<open>return 0\<close>.
\<close>

datatype polarity = RISING | FALLING | OtherPolarity pyval

fun trigger_edge :: "polarity \<Rightarrow> string option" where
  "trigger_edge RISING = Some ''w1''"
| "trigger_edge FALLING = Some ''w1''"
| "trigger_edge (OtherPolarity v) = None"

definition set_ext_trigger :: "env \<Rightarrow> polarity arg \<Rightarrow> int io" where
  "set_ext_trigger E a =
     (case trigger_edge (arg_or RISING a) of
        None \<Rightarrow> ret (- 1)
      | Some edge \<Rightarrow>
          bnd (try_except (bnd (usb_write E edge) (\<lambda>_. ret None)) (ret (Some (- 1)))) (\<lambda>r.
          case r of Some code \<Rightarrow> ret code | None \<Rightarrow> ret 0))"

section \<open>A simulated device and basic facts\<close>

text \<open>
  A simulated instrument for concrete runs: every write is accepted (the transport reports
  the number of characters sent), every query is answered with the same reply, numeric
  replies are read as integers. The subtraction and the text of a number are stand-ins
  that are exact on integers.
\<close>

definition sim_env :: "string \<Rightarrow> env" where
  "sim_env reply =
     \<lparr>visa_write = (\<lambda>h cmd. Inr (PInt (int (length cmd)))),
      visa_query = (\<lambda>h cmd. Inr reply),
      float_of_str = (\<lambda>t. case py_int t of Inl e \<Rightarrow> Inl e | Inr n \<Rightarrow> Inr (of_int n)),
      num_sub = (\<lambda>x y. NFloat (num_val x - num_val y)),
      str_of_num = (\<lambda>x. format_f (num_val x))\<rparr>"

definition fresh :: adapter where
  "fresh = \<lparr>io_log = [], internal_mode = None\<rparr>"

text \<open>A transport on which no write raises.\<close>

definition accepts_writes :: "env \<Rightarrow> bool" where
  "accepts_writes E = (\<forall>h cmd. \<exists>v. visa_write E h cmd = Inr v)"

text \<open>The exception in which the expression \<^verbatim>\<open>self.get_status()\<close> ends.\<close>

definition status_error :: "env \<Rightarrow> adapter \<Rightarrow> error" where
  "status_error E s =
     (case visa_query E (io_log s) ''r?'' of
        Inl e \<Rightarrow> e
      | Inr r \<Rightarrow> (case py_int (strip r) of Inl e \<Rightarrow> e | Inr n \<Rightarrow> TypeError))"

definition logged :: "event list \<Rightarrow> adapter \<Rightarrow> adapter" where
  "logged evs s = s\<lparr>io_log := io_log s @ evs\<rparr>"

lemmas io_defs = ret_def raise_def lift_def bnd_def run_if_def try_except_def usb_query_def
  sleep200_def set_mode_def get_mode_def gpib_write_def mangled_usb_write_def logged_def

lemma dec_digits_small: "n < 10 \<Longrightarrow> dec_digits n = [digit_char n]"
  by (subst dec_digits.simps) simp

lemma dec_digits_big: "10 \<le> n \<Longrightarrow> dec_digits n = dec_digits (n div 10) @ [digit_char (n mod 10)]"
  by (subst dec_digits.simps) simp

lemma replicate_pos: "0 < n \<Longrightarrow> replicate n c = c # replicate (n - 1) c"
  by (cases n) simp_all

lemmas fmt_defs = format_e_def format_f_def format_f_frac_def format_e_frac_def format_e_scaled_def
  format_e_carry_def exponent_text_def sign_text_def six_decimals_def
  dec_exponent_def round_half_even_def pad_left_def
  dec_digits_small dec_digits_big digit_char_def format_int_def replicate_pos

lemma format_e_1e9: "format_e 1000000000 = ''1.000000e+09''"
  by (simp add: fmt_defs)

lemma format_e_2e9: "format_e 2000000000 = ''2.000000e+09''"
  by (simp add: fmt_defs)

lemma format_e_1: "format_e 1 = ''1.000000e+00''"
  by (simp add: fmt_defs)

lemma format_f_minus_10: "format_f (- 10) = ''-10.000000''"
  by (simp add: fmt_defs)

lemma format_f_0: "format_f 0 = ''0.000000''"
  by (simp add: fmt_defs)

lemma format_f_100: "format_f 100 = ''100.000000''"
  by (simp add: fmt_defs)

lemma format_int_3: "format_int 3 = ''3''"
  by (simp add: fmt_defs)

lemma py_int_strip_0: "py_int (strip ''0'') = Inr 0"
  by (simp add: py_int_def strip_def is_space_def digit_val_def)

lemma py_int_strip_1: "py_int (strip ''1'') = Inr 1"
  by (simp add: py_int_def strip_def is_space_def digit_val_def)

lemma accepts_writes_sim: "accepts_writes (sim_env reply)"
  by (simp add: accepts_writes_def sim_env_def)

text \<open>A write whose return value is not used, on a transport that accepts it.\<close>

lemma bnd_usb_write:
  assumes "accepts_writes E"
  shows "bnd (usb_write E cmd) (\<lambda>_. k) s = k (logged [Write cmd] s)"
proof -
  from assms obtain v where "visa_write E (io_log s) cmd = Inr v"
    unfolding accepts_writes_def by blast
  then show ?thesis
    by (simp add: bnd_def usb_write_def logged_def)
qed

lemma logged_logged: "logged ys (logged xs s) = logged (xs @ ys) s"
  by (simp add: logged_def)

lemma get_status_call_raises:
  "get_status_call E s = (Inl (status_error E s), logged [Query ''r?''] s)"
  by (simp add: get_status_call_def get_status_def status_error_def io_defs split: sum.splits)

lemma cw_on_raises:
  "cw_on E s = Some (Inl (status_error E s), logged [Query ''r?''] s)"
  by (simp add: cw_on_def cw_on_check_def bnd_def get_status_call_raises)

lemma set_cw_raises:
  "set_cw E fa pa s = (Inl (status_error E s), logged [Query ''r?''] s)"
  by (simp add: set_cw_def bnd_def get_status_call_raises)

lemma set_sweep_raises:
  "set_sweep E start stop step pw s = (Inl AttributeError, s)"
  by (simp add: set_sweep_def bnd_def gpib_write_def raise_def)

lemma status_error_sim_0: "status_error (sim_env ''0'') s = TypeError"
  by (simp add: status_error_def sim_env_def py_int_strip_0)

lemma status_error_sim_1: "status_error (sim_env ''1'') s = TypeError"
  by (simp add: status_error_def sim_env_def py_int_strip_1)

lemma bnd_lift_Inr: "bnd (lift (Inr x)) f s = f x s"
  by (simp add: bnd_def lift_def)

lemma bnd_set_mode: "bnd (set_mode v) f s = f () (s\<lparr>internal_mode := Some v\<rparr>)"
  by (simp add: bnd_def set_mode_def)

lemma bnd_lift_Inl: "bnd (lift (Inl e)) f s = (Inl e, s)"
  by (simp add: bnd_def lift_def)

lemma format_e_num_1e9: "format_e_num (NFloat 1000000000) = Inr ''1.000000e+09''"
  by (simp add: format_e_num_def format_e_1e9)

lemma format_e_num_2e9: "format_e_num (NFloat 2000000000) = Inr ''2.000000e+09''"
  by (simp add: format_e_num_def format_e_2e9)

lemma format_e_num_int_1: "format_e_num (NInt 1) = Inr ''1.000000e+00''"
  by (simp add: format_e_num_def int_to_double_def format_e_1)

lemma format_f_num_int_minus_10: "format_f_num (NInt (- 10)) = Inr ''-10.000000''"
  by (simp add: format_f_num_def int_to_double_def format_f_minus_10)

lemma format_f_num_int_100: "format_f_num (NInt 100) = Inr ''100.000000''"
  by (simp add: format_f_num_def int_to_double_def format_f_100)

lemma format_f_num_float_0: "format_f_num (NFloat 0) = Inr ''0.000000''"
  by (simp add: format_f_num_def format_f_0)

text \<open>An integer beyond the range of the doubles.\<close>

lemma int_to_double_overflow: "int_to_double (2 ^ 1024) = Inl OverflowError"
  by (simp add: int_to_double_def)

text \<open>
  Two integers above \<open>2 ^ 53\<close>: they are printed as the nearest double, not digit by
  digit.
\<close>

lemma bitlen_zero: "bitlen 0 = 0"
  by (simp add: bitlen.simps)

lemma bitlen_pos: "0 < n \<Longrightarrow> bitlen n = Suc (bitlen (n div 2))"
  by (subst bitlen.simps) simp

lemma int_to_double_2_53_plus_1: "int_to_double 9007199254740993 = Inr 9007199254740992"
  by (simp add: int_to_double_def round53_def round_half_even_def bitlen_zero bitlen_pos)

lemma int_to_double_1e19: "int_to_double 10000005000000000001 = Inr 10000005000000000000"
  by (simp add: int_to_double_def round53_def round_half_even_def bitlen_zero bitlen_pos)

lemma format_e_1e19: "format_e 10000005000000000000 = ''1.000000e+19''"
  by (simp add: fmt_defs)

lemma set_list_three:
  assumes "accepts_writes E"
  shows "set_list E (Given (Some [NFloat 1000000000, NFloat 1500000000, NFloat 2000000000]))
           (Given (Some (NInt (- 10)))) s
    = (Inr 0,
       (logged [Write ''X0'', Write ''l1.000000e+09'', Write ''u2.000000e+09'', Write ''s3'',
                Write ''t10.00'', Write ''[-10.000000'', Write '']-10.000000'', Write ''^1'',
                Write ''g1''] s)\<lparr>internal_mode := Some (PStr ''list'')\<rparr>)"
  by (simp add: set_list_def bnd_usb_write [OF assms] bnd_lift_Inr bnd_set_mode ret_def
      logged_logged format_e_num_1e9 format_e_num_2e9 format_f_num_int_minus_10 format_int_3)

lemma set_frequency_given:
  assumes "accepts_writes E" and "float_of_num x = Inr q"
  shows "set_frequency E (Given (Some x)) s = (Inr 0, logged [Write (''f'' @ format_e q @ '' MHz'')] s)"
  by (simp add: set_frequency_def format_e_num_def assms(2) bnd_lift_Inr
      bnd_usb_write [OF assms(1)] ret_def)

lemma set_frequency_refused:
  assumes "float_of_num x = Inl e"
  shows "set_frequency E (Given (Some x)) s = (Inl e, s)"
  by (simp add: set_frequency_def format_e_num_def assms bnd_lift_Inl)

lemma set_power_given:
  assumes "accepts_writes E" and "float_of_num x = Inr q"
  shows "set_power E (Given (Some x)) s = (Inr 0, logged [Write (''W'' @ format_f q)] s)"
  by (simp add: set_power_def format_f_num_def assms(2) bnd_lift_Inr
      bnd_usb_write [OF assms(1)] ret_def)

lemma set_power_refused:
  assumes "float_of_num x = Inl e"
  shows "set_power E (Given (Some x)) s = (Inl e, s)"
  by (simp add: set_power_def format_f_num_def assms bnd_lift_Inl)

lemma get_status_sim_1:
  "get_status (sim_env ''1'') s = (Inr (PTuple [PStr ''sweep'', PBool True]), logged [Query ''r?''] s)"
  by (simp add: get_status_def io_defs sim_env_def py_int_strip_1)

section \<open>The claims\<close>

text \<open>
  C1. Claim: cw_on is idempotent; when the device is already running in CW mode it is a
  no-op that returns the success code 0 and sends no stop or enable command.
  The run below is the code at such a state (the device answers \<^verbatim>\<open>1\<close> to the status
  query, the mode is \<^verbatim>\<open>cw\<close>): the method sends the status query and nothing else, but it
  ends in \<^verbatim>\<open>TypeError\<close>, because the tuple read from the property
  \<^verbatim>\<open>get_status\<close> is called, and returns no code.
\<close>

theorem C1_cw_on_running_cw_raises:
  "cw_on (sim_env ''1'') \<lparr>io_log = [], internal_mode = Some (PStr ''cw'')\<rparr>
     = Some (Inl TypeError, \<lparr>io_log = [Query ''r?''], internal_mode = Some (PStr ''cw'')\<rparr>)"
  by (simp add: cw_on_raises status_error_sim_1 logged_def)

text \<open>
  C2. Claim: against a device that never reports the running flag, cw_on terminates with a
  timeout failure after a bounded number of 200 ms polls.
  The run below is the code on the device that answers \<^verbatim>\<open>0\<close> to every status query.
  The waiting loop that the body sets out to run is never reached: the call ends in
  \<^verbatim>\<open>TypeError\<close> at its first statement (a transport timeout would be
  \<^verbatim>\<open>VisaIOError\<close>), after one status query and without a single 200 ms sleep.
\<close>

theorem C2_cw_on_never_running_raises:
  "cw_on (sim_env ''0'') fresh
     = Some (Inl TypeError, \<lparr>io_log = [Query ''r?''], internal_mode = None\<rparr>)"
  by (simp add: cw_on_raises status_error_sim_0 logged_def fresh_def)

text \<open>
  C3. Claim: set_cw stops the device if it is running, switches to CW, writes the frequency
  and the power that are provided, and returns the actual frequency, power and mode.
  The run below is the code on a running device with both arguments given: nothing is
  written, and the call ends in \<^verbatim>\<open>TypeError\<close> at its first statement.
\<close>

theorem C3_set_cw_raises:
  "set_cw (sim_env ''1'') (Given (Some (NFloat 2870000000))) (Given (Some (NInt (- 10)))) fresh
     = (Inl TypeError, \<lparr>io_log = [Query ''r?''], internal_mode = None\<rparr>)"
  by (simp add: set_cw_raises status_error_sim_1 logged_def fresh_def)

text \<open>
  C4. Every call of cw_on, set_cw and set_sweep ends in an exception and returns no result.
  cw_on and set_cw stop at the expression \<^verbatim>\<open>self.get_status()\<close>, after the status
  query and before any other command, with the exception \<open>status_error\<close>: the
  \<^verbatim>\<open>TypeError\<close> of calling a tuple whenever the query is answered with text that reads
  as an integer. set_sweep stops at \<^verbatim>\<open>self._gpib_connection\<close> with
  \<^verbatim>\<open>AttributeError\<close>, before anything reaches the device. The write through
  \<^verbatim>\<open>self.__usb_connection\<close> in cw_on raises \<^verbatim>\<open>AttributeError\<close> as well.
\<close>

theorem C4_mode_setters_always_raise:
  "cw_on E s = Some (Inl (status_error E s), logged [Query ''r?''] s)
   \<and> set_cw E fa pa s = (Inl (status_error E s), logged [Query ''r?''] s)
   \<and> set_sweep E start stop step pw s = (Inl AttributeError, s)
   \<and> mangled_usb_write E cmd s = (Inl AttributeError, s)
   \<and> status_error (sim_env ''1'') s = TypeError"
  by (simp add: cw_on_raises set_cw_raises set_sweep_raises mangled_usb_write_def raise_def
      status_error_sim_1)

text \<open>
  C5. Claim: the mode returned by get_status is the mode last written by a mode-switch
  operation (\<^verbatim>\<open>list\<close> after a successful set_list), and the running flag is read from
  the device at each call.
  The run below is set_list followed by a read of get_status on a running device: set_list
  succeeds and records the mode \<^verbatim>\<open>list\<close>, the running flag is the one parsed from the
  reply, but the mode that get_status returns is \<^verbatim>\<open>sweep\<close>.
\<close>

theorem C5_get_status_mode_after_set_list:
  "(case set_list (sim_env ''1'')
           (Given (Some [NFloat 1000000000, NFloat 1500000000, NFloat 2000000000]))
           (Given (Some (NInt (- 10)))) fresh of
      (r, s1) \<Rightarrow> (r, internal_mode s1, fst (get_status (sim_env ''1'') s1)))
     = (Inr 0, Some (PStr ''list''), Inr (PTuple [PStr ''sweep'', PBool True]))"
  by (simp add: set_list_three [OF accepts_writes_sim] get_status_sim_1)

text \<open>
  C6. Claim: set_ext_trigger(RISING) and set_ext_trigger(FALLING) succeed and send two
  distinct command strings.
  The runs below are the code for the two edges: both succeed, and both send the same
  command \<^verbatim>\<open>w1\<close>.
\<close>

theorem C6_set_ext_trigger_same_command:
  "set_ext_trigger (sim_env ''0'') (Given RISING) fresh
     = (Inr 0, \<lparr>io_log = [Write ''w1''], internal_mode = None\<rparr>)
   \<and> set_ext_trigger (sim_env ''0'') (Given FALLING) fresh
     = (Inr 0, \<lparr>io_log = [Write ''w1''], internal_mode = None\<rparr>)"
  by (simp add: set_ext_trigger_def usb_write_def io_defs fresh_def sim_env_def)

text \<open>
  C7. On a transport that accepts the writes, set_list with the frequencies
  \<open>[1e9, 1.5e9, 2e9]\<close> and the power \<open>-10\<close> writes the entry count 3 (\<^verbatim>\<open>s3\<close>), the
  lower bound 1e9 (\<^verbatim>\<open>l1.000000e+09\<close>, the first entry), the upper bound 2e9
  (\<^verbatim>\<open>u2.000000e+09\<close>, the last entry) and the power -10 in both power commands
  (\<^verbatim>\<open>[-10.000000\<close> and \<^verbatim>\<open>]-10.000000\<close>), records the mode \<^verbatim>\<open>list\<close> and returns 0.
\<close>

theorem C7_set_list_example:
  assumes "accepts_writes E"
  shows "set_list E (Given (Some [NFloat 1000000000, NFloat 1500000000, NFloat 2000000000]))
           (Given (Some (NInt (- 10)))) s
    = (Inr 0,
       s\<lparr>io_log := io_log s @
            [Write ''X0'', Write ''l1.000000e+09'', Write ''u2.000000e+09'', Write ''s3'',
             Write ''t10.00'', Write ''[-10.000000'', Write '']-10.000000'', Write ''^1'',
             Write ''g1''],
          internal_mode := Some (PStr ''list'')\<rparr>)"
  by (simp add: set_list_three [OF assms] logged_def)

theorem C7_set_list_example_witness:
  "accepts_writes (sim_env ''0'')
   \<and> set_list (sim_env ''0'')
        (Given (Some [NFloat 1000000000, NFloat 1500000000, NFloat 2000000000]))
        (Given (Some (NInt (- 10)))) fresh
    = (Inr 0,
       \<lparr>io_log =
            [Write ''X0'', Write ''l1.000000e+09'', Write ''u2.000000e+09'', Write ''s3'',
             Write ''t10.00'', Write ''[-10.000000'', Write '']-10.000000'', Write ''^1'',
             Write ''g1''],
          internal_mode = Some (PStr ''list'')\<rparr>)"
  using C7_set_list_example [OF accepts_writes_sim, of "''0''" fresh] accepts_writes_sim [of "''0''"]
  by (simp add: fresh_def)

text \<open>
  C8. Claim: a frequency or a power outside the limits of get_limits makes the setter fail
  with an out-of-range error, and nothing is written.
  Counterexample: 1 Hz is below the minimum frequency and 100 dBm is above the maximum
  power; set_frequency and set_power write the command and return 0.
\<close>

theorem C8_out_of_range_counterexample:
  "num_val (NInt 1) < min_frequency get_limits \<and> max_power get_limits < num_val (NInt 100)
   \<and> set_frequency (sim_env ''0'') (Given (Some (NInt 1))) fresh
        = (Inr 0, \<lparr>io_log = [Write ''f1.000000e+00 MHz''], internal_mode = None\<rparr>)
   \<and> set_power (sim_env ''0'') (Given (Some (NInt 100))) fresh
        = (Inr 0, \<lparr>io_log = [Write ''W100.000000''], internal_mode = None\<rparr>)"
  by (simp add: get_limits_def set_frequency_def set_power_def format_e_num_int_1
      format_f_num_int_100 bnd_lift_Inr bnd_usb_write [OF accepts_writes_sim] ret_def
      logged_def fresh_def)

text \<open>
  C8, amended. The setters do not look at the limits. For every frequency outside
  \<open>[min_frequency, max_frequency]\<close> and every power outside \<open>[min_power, max_power]\<close> that
  is a float, or an integer that converts to a float, on a transport that accepts the
  write, set_frequency and set_power each issue exactly one write, of the encoded command,
  and return the success code 0.
\<close>

theorem C8_setters_do_not_check_limits:
  assumes "accepts_writes E"
    and "float_of_num f = Inr qf"
    and "num_val f < min_frequency get_limits \<or> max_frequency get_limits < num_val f"
    and "float_of_num p = Inr qp"
    and "num_val p < min_power get_limits \<or> max_power get_limits < num_val p"
  shows "set_frequency E (Given (Some f)) s
           = (Inr 0, s\<lparr>io_log := io_log s @ [Write (''f'' @ format_e qf @ '' MHz'')]\<rparr>)
       \<and> set_power E (Given (Some p)) s
           = (Inr 0, s\<lparr>io_log := io_log s @ [Write (''W'' @ format_f qp)]\<rparr>)"
  by (simp add: set_frequency_given [OF assms(1) assms(2)] set_power_given [OF assms(1) assms(4)]
      logged_def)

theorem C8_setters_do_not_check_limits_witness:
  "accepts_writes (sim_env ''0'')
   \<and> float_of_num (NInt 1) = Inr 1
   \<and> (num_val (NInt 1) < min_frequency get_limits \<or> max_frequency get_limits < num_val (NInt 1))
   \<and> float_of_num (NInt 100) = Inr 100
   \<and> (num_val (NInt 100) < min_power get_limits \<or> max_power get_limits < num_val (NInt 100))
   \<and> set_frequency (sim_env ''0'') (Given (Some (NInt 1))) fresh
        = (Inr 0, fresh\<lparr>io_log := io_log fresh @ [Write (''f'' @ format_e 1 @ '' MHz'')]\<rparr>)
   \<and> set_power (sim_env ''0'') (Given (Some (NInt 100))) fresh
        = (Inr 0, fresh\<lparr>io_log := io_log fresh @ [Write (''W'' @ format_f 100)]\<rparr>)"
proof -
  have a: "accepts_writes (sim_env ''0'')" by (rule accepts_writes_sim)
  have cf: "float_of_num (NInt 1) = Inr 1" by (simp add: int_to_double_def)
  have f: "num_val (NInt 1) < min_frequency get_limits \<or> max_frequency get_limits < num_val (NInt 1)"
    by (simp add: get_limits_def)
  have cp: "float_of_num (NInt 100) = Inr 100" by (simp add: int_to_double_def)
  have p: "num_val (NInt 100) < min_power get_limits \<or> max_power get_limits < num_val (NInt 100)"
    by (simp add: get_limits_def)
  from C8_setters_do_not_check_limits [OF a cf f cp p, of fresh] a cf f cp p
  show ?thesis by blast
qed

text \<open>
  C9. Claim: set_frequency returns an error code exactly when it is given no value, and for
  every frequency that is not \<^verbatim>\<open>None\<close> it writes the encoded command and returns 0.
  Counterexample: the integer \<open>2 ^ 1024\<close> is a frequency that is not \<^verbatim>\<open>None\<close>; the
  format \<^verbatim>\<open>e\<close> cannot turn it into a float, the call ends in
  \<^verbatim>\<open>OverflowError\<close>, nothing is written and no code is returned.
\<close>

theorem C9_set_frequency_overflow_counterexample:
  "set_frequency (sim_env ''0'') (Given (Some (NInt (2 ^ 1024)))) fresh
     = (Inl OverflowError, fresh)"
  by (rule set_frequency_refused) (simp only: float_of_num.simps int_to_double_overflow)

text \<open>
  C9, amended. set_frequency returns the error code -1 exactly when it is given no value
  (the argument is \<^verbatim>\<open>None\<close>, explicitly or by default), and then nothing is written.
  For every frequency that is a float, or an integer that converts to a float, on a
  transport that accepts the write, it writes the frequency command, with the value in the
  format \<^verbatim>\<open>e\<close>, and returns 0; the traffic is that single write, with no query that
  would confirm it. For an integer that does not convert to a float the call raises the
  conversion's exception and nothing is written.
\<close>

theorem C9_set_frequency:
  "set_frequency E (Given None) s = (Inr (- 1), s)
   \<and> set_frequency E Omitted s = (Inr (- 1), s)
   \<and> (fst (set_frequency E a s) = Inr (- 1) \<longleftrightarrow> arg_or None a = None)
   \<and> (accepts_writes E \<longrightarrow> float_of_num x = Inr q \<longrightarrow>
        set_frequency E (Given (Some x)) s
          = (Inr 0, s\<lparr>io_log := io_log s @ [Write (''f'' @ format_e q @ '' MHz'')]\<rparr>))
   \<and> (float_of_num y = Inl e \<longrightarrow> set_frequency E (Given (Some y)) s = (Inl e, s))"
proof (intro conjI impI)
  show "set_frequency E (Given None) s = (Inr (- 1), s)"
    by (simp add: set_frequency_def ret_def)
  show "set_frequency E Omitted s = (Inr (- 1), s)"
    by (simp add: set_frequency_def ret_def)
  show "fst (set_frequency E a s) = Inr (- 1) \<longleftrightarrow> arg_or None a = None"
  proof (cases "arg_or None a")
    case None
    then show ?thesis by (simp add: set_frequency_def ret_def)
  next
    case (Some z)
    then show ?thesis
      by (auto simp add: set_frequency_def ret_def bnd_def lift_def usb_write_def
          split: sum.splits)
  qed
next
  assume "accepts_writes E" and "float_of_num x = Inr q"
  then show "set_frequency E (Given (Some x)) s
          = (Inr 0, s\<lparr>io_log := io_log s @ [Write (''f'' @ format_e q @ '' MHz'')]\<rparr>)"
    by (simp add: set_frequency_given logged_def)
next
  assume "float_of_num y = Inl e"
  then show "set_frequency E (Given (Some y)) s = (Inl e, s)"
    by (rule set_frequency_refused)
qed

theorem C9_set_frequency_witness:
  "accepts_writes (sim_env ''0'')
   \<and> float_of_num (NFloat 1000000000) = Inr 1000000000
   \<and> float_of_num (NInt (2 ^ 1024)) = Inl OverflowError
   \<and> set_frequency (sim_env ''0'') (Given None) fresh = (Inr (- 1), fresh)
   \<and> set_frequency (sim_env ''0'') (Given (Some (NFloat 1000000000))) fresh
        = (Inr 0, \<lparr>io_log = [Write ''f1.000000e+09 MHz''], internal_mode = None\<rparr>)
   \<and> set_frequency (sim_env ''0'') (Given (Some (NInt (2 ^ 1024)))) fresh = (Inl OverflowError, fresh)"
proof -
  have a: "accepts_writes (sim_env ''0'')" by (rule accepts_writes_sim)
  have c: "float_of_num (NFloat 1000000000) = Inr 1000000000" by simp
  have o: "float_of_num (NInt (2 ^ 1024)) = Inl OverflowError"
    by (simp only: float_of_num.simps int_to_double_overflow)
  from C9_set_frequency [of "sim_env ''0''" fresh "Given None" "NFloat 1000000000" 1000000000
      "NInt (2 ^ 1024)" OverflowError] a c o
  have "set_frequency (sim_env ''0'') (Given None) fresh = (Inr (- 1), fresh)"
    and "set_frequency (sim_env ''0'') (Given (Some (NFloat 1000000000))) fresh
        = (Inr 0, fresh\<lparr>io_log := io_log fresh @ [Write (''f'' @ format_e 1000000000 @ '' MHz'')]\<rparr>)"
    and "set_frequency (sim_env ''0'') (Given (Some (NInt (2 ^ 1024)))) fresh = (Inl OverflowError, fresh)"
    by blast+
  with a c o show ?thesis by (simp add: fresh_def format_e_1e9)
qed

text \<open>
  C10. Claim: set_power fails with an error code when it is invoked without a power
  argument, and otherwise writes the power command and returns 0.
  Counterexample: invoked without an argument, set_power takes the default \<open>0.\<close>, writes
  \<^verbatim>\<open>W0.000000\<close> and returns 0.
\<close>

theorem C10_set_power_default_counterexample:
  "set_power (sim_env ''0'') Omitted fresh
     = (Inr 0, \<lparr>io_log = [Write ''W0.000000''], internal_mode = None\<rparr>)"
  by (simp add: set_power_def format_f_num_float_0 bnd_lift_Inr
      bnd_usb_write [OF accepts_writes_sim] ret_def logged_def fresh_def)

text \<open>
  C10, amended. set_power returns the error code -1, and writes nothing, when the power is
  given as \<^verbatim>\<open>None\<close>. Invoked without a power argument it uses the default 0 dBm and
  writes \<^verbatim>\<open>W0.000000\<close>. For the default and for every power that is a float, or an
  integer that converts to a float, on a transport that accepts the write, it writes the
  power command, with the value in the format \<^verbatim>\<open>f\<close>, and returns 0. For an integer
  that does not convert to a float the call raises the conversion's exception and nothing
  is written.
\<close>

theorem C10_set_power:
  "set_power E (Given None) s = (Inr (- 1), s)
   \<and> (accepts_writes E \<longrightarrow>
        set_power E Omitted s = (Inr 0, s\<lparr>io_log := io_log s @ [Write ''W0.000000'']\<rparr>))
   \<and> (accepts_writes E \<longrightarrow> float_of_num x = Inr q \<longrightarrow>
        set_power E (Given (Some x)) s
          = (Inr 0, s\<lparr>io_log := io_log s @ [Write (''W'' @ format_f q)]\<rparr>))
   \<and> (float_of_num y = Inl e \<longrightarrow> set_power E (Given (Some y)) s = (Inl e, s))"
proof (intro conjI impI)
  show "set_power E (Given None) s = (Inr (- 1), s)"
    by (simp add: set_power_def ret_def)
next
  assume a: "accepts_writes E"
  show "set_power E Omitted s = (Inr 0, s\<lparr>io_log := io_log s @ [Write ''W0.000000'']\<rparr>)"
    by (simp add: set_power_def format_f_num_float_0 bnd_lift_Inr bnd_usb_write [OF a] ret_def
        logged_def)
next
  assume "accepts_writes E" and "float_of_num x = Inr q"
  then show "set_power E (Given (Some x)) s
          = (Inr 0, s\<lparr>io_log := io_log s @ [Write (''W'' @ format_f q)]\<rparr>)"
    by (simp add: set_power_given logged_def)
next
  assume "float_of_num y = Inl e"
  then show "set_power E (Given (Some y)) s = (Inl e, s)"
    by (rule set_power_refused)
qed

theorem C10_set_power_witness:
  "accepts_writes (sim_env ''0'')
   \<and> float_of_num (NInt (- 10)) = Inr (- 10)
   \<and> float_of_num (NInt (2 ^ 1024)) = Inl OverflowError
   \<and> set_power (sim_env ''0'') (Given None) fresh = (Inr (- 1), fresh)
   \<and> set_power (sim_env ''0'') Omitted fresh
        = (Inr 0, \<lparr>io_log = [Write ''W0.000000''], internal_mode = None\<rparr>)
   \<and> set_power (sim_env ''0'') (Given (Some (NInt (- 10)))) fresh
        = (Inr 0, \<lparr>io_log = [Write ''W-10.000000''], internal_mode = None\<rparr>)
   \<and> set_power (sim_env ''0'') (Given (Some (NInt (2 ^ 1024)))) fresh = (Inl OverflowError, fresh)"
proof -
  have a: "accepts_writes (sim_env ''0'')" by (rule accepts_writes_sim)
  have c: "float_of_num (NInt (- 10)) = Inr (- 10)" by (simp add: int_to_double_def)
  have o: "float_of_num (NInt (2 ^ 1024)) = Inl OverflowError"
    by (simp only: float_of_num.simps int_to_double_overflow)
  from C10_set_power [of "sim_env ''0''" fresh "NInt (- 10)" "- 10" "NInt (2 ^ 1024)" OverflowError]
    a c o
  have "set_power (sim_env ''0'') (Given None) fresh = (Inr (- 1), fresh)"
    and "set_power (sim_env ''0'') Omitted fresh
        = (Inr 0, fresh\<lparr>io_log := io_log fresh @ [Write ''W0.000000'']\<rparr>)"
    and "set_power (sim_env ''0'') (Given (Some (NInt (- 10)))) fresh
        = (Inr 0, fresh\<lparr>io_log := io_log fresh @ [Write (''W'' @ format_f (- 10))]\<rparr>)"
    and "set_power (sim_env ''0'') (Given (Some (NInt (2 ^ 1024)))) fresh = (Inl OverflowError, fresh)"
    by blast+
  with a c o show ?thesis by (simp add: fresh_def format_f_minus_10)
qed

end
